theory Spec2Isabelle
  imports Main "HOL-Library.Sublist"
begin

section \<open>The Colab scraping template: data\<close>

text \<open>
  The program is \<^verbatim>\<open>docs/COLAB_SCRAPER_TEMPLATE.py\<close>: module constants, two scraper
  functions that are placeholders, \<^verbatim>\<open>send_to_webhook\<close> and \<^verbatim>\<open>main\<close>.

  A product is a Python \<^verbatim>\<open>Dict\<close>. The program builds one dict literal around it and
  reads one key of it (\<^verbatim>\<open>product_data.get('name')\<close>); it never looks at any other value.
  A dict is an association list in insertion order and \<^verbatim>\<open>d.get(k)\<close> is \<open>map_of d k\<close>
  (\<open>None\<close> is Python's \<^verbatim>\<open>None\<close>). A value is a string, a dict, or any other Python
  object, which the program cannot tell apart and which is kept as an opaque \<open>PObj\<close>.
\<close>

datatype 'a pyval =
    PStr string
  | PDict "(string \<times> 'a pyval) list"
  | PObj 'a

type_synonym 'a product = "(string \<times> 'a pyval) list"

text \<open>
  The module constants (lines 21 to 30). \<open>source_config\<close> holds the values written in
  the file; every function below takes the configuration as an argument, so that the
  theorems hold for the values a user fills in as well.
\<close>

record config =
  WEBHOOK_URL :: string
  GMAIL_ACCOUNT :: string
  SUBCATEGORIES :: "string list"
  RATE_LIMIT_PER_MINUTE :: int
  SCRAPE_TIMEOUT :: int

definition source_config :: config where
  "source_config =
     \<lparr> WEBHOOK_URL = ''http://localhost:5678/webhook/jeantrail-incoming-product'',
       GMAIL_ACCOUNT = ''jeantrail1001@gmail.com'',
       SUBCATEGORIES = [''Bermuda Shorts'', ''Cravats'', ''Vests''],
       RATE_LIMIT_PER_MINUTE = 10,
       SCRAPE_TIMEOUT = 30 \<rparr>"

text \<open>
  An exception is a value. \<open>exn\<close> ranges over the exceptions that derive from Python's
  \<^verbatim>\<open>Exception\<close>, which is what \<^verbatim>\<open>requests\<close> and \<^verbatim>\<open>datetime\<close> raise and what
  \<^verbatim>\<open>except Exception\<close> catches.
\<close>

datatype exn = Timeout | ConnectionError | Raised string

text \<open>
  The arguments of one call \<^verbatim>\<open>requests.post(WEBHOOK_URL, json=payload, timeout=SCRAPE_TIMEOUT)\<close>.
\<close>

record 'a request =
  url :: string
  json :: "'a product"
  timeout :: int

text \<open>
  The lines the program prints. Each constructor is one \<^verbatim>\<open>print\<close> statement of the
  source and carries the values that its f-string interpolates.
\<close>

datatype 'a line =
    Start string                      \<comment> \<open>line 110: \<^verbatim>\<open>[START] JeanTrail Colab Scraper - {GMAIL_ACCOUNT}\<close>\<close>
  | Info_subcategories "string list"  \<comment> \<open>line 111: \<^verbatim>\<open>[INFO] Subcategories to scrape: ...\<close>\<close>
  | Processing string                 \<comment> \<open>line 117: \<^verbatim>\<open>[PROCESSING] {subcategory}\<close>\<close>
  | Info_alibaba string               \<comment> \<open>line 52: \<^verbatim>\<open>[INFO] Scraping Alibaba for: {subcategory}\<close>\<close>
  | Info_1688 string                  \<comment> \<open>line 67: \<^verbatim>\<open>[INFO] Scraping 1688 for: {subcategory}\<close>\<close>
  | Success "'a pyval option"         \<comment> \<open>line 96: \<^verbatim>\<open>[SUCCESS] Product sent: {product_data.get('name')}\<close>\<close>
  | Error_status int                  \<comment> \<open>line 99: \<^verbatim>\<open>[ERROR] Webhook returned {response.status_code}\<close>\<close>
  | Error_failed exn                  \<comment> \<open>line 103: \<^verbatim>\<open>[ERROR] Failed to send webhook: {str(e)}\<close>\<close>
  | Complete                          \<comment> \<open>line 132: \<^verbatim>\<open>[COMPLETE] Scraping finished\<close>\<close>
  | Stats int int                     \<comment> \<open>line 133: \<^verbatim>\<open>[STATS] Sent: {total_sent}, Failed: {total_failed}\<close>\<close>

section \<open>The world outside the program\<close>

text \<open>
  Everything outside the process (the console, the clock, the network and the endpoint
  behind it) is a value of an arbitrary type \<open>'w\<close>. The three library calls of the source
  act on it and are parameters of the model:

  \<^item> \<open>print\<close> writes a line and returns nothing. Here it does not raise; the section on
    \<^verbatim>\<open>send_to_webhook\<close> with every raise written out lets it raise.
  \<^item> \<open>utcnow_isoformat\<close> is \<^verbatim>\<open>datetime.utcnow().isoformat()\<close>: it yields the text of
    the timestamp, or raises.
  \<^item> \<open>requests_post\<close> is \<^verbatim>\<open>requests.post\<close>: it yields a response, of which the program
    reads \<^verbatim>\<open>status_code\<close> only, or raises (timeout, connection error, DNS failure, a
    payload that cannot be serialised).

  Nothing is assumed about them: the endpoint may answer differently each time.
\<close>

record ('a, 'w) env =
  print :: "'a line \<Rightarrow> 'w \<Rightarrow> 'w"
  utcnow_isoformat :: "'w \<Rightarrow> (exn + string) \<times> 'w"
  requests_post :: "'a request \<Rightarrow> 'w \<Rightarrow> (exn + int) \<times> 'w"

text \<open>
  The state of a run is the world together with three histories. The histories are not
  variables of the program; they record what it did, so that properties of a run can be
  stated:

  \<^item> \<open>wire\<close>: the requests passed to \<^verbatim>\<open>requests.post\<close>, oldest first;
  \<^item> \<open>attempts\<close>: one entry per iteration of the loop of lines 126 to 130: the record
    given to \<^verbatim>\<open>send_to_webhook\<close>, the value it returned, and \<^verbatim>\<open>total_sent\<close> and
    \<^verbatim>\<open>total_failed\<close> after the update;
  \<^item> \<open>scraped\<close>: one entry per evaluation of line 123: the subcategory and the value of
    \<^verbatim>\<open>all_products\<close>.
\<close>

record 'a attempt =
  item :: "'a product"
  returned :: bool
  sent_after :: int
  failed_after :: int

record ('a, 'w) state =
  world :: 'w
  wire :: "'a request list"
  attempts :: "'a attempt list"
  scraped :: "(string \<times> 'a product list) list"

definition fresh :: "'w \<Rightarrow> ('a, 'w) state" where
  "fresh w = \<lparr> world = w, wire = [], attempts = [], scraped = [] \<rparr>"

definition say :: "('a, 'w) env \<Rightarrow> 'a line \<Rightarrow> ('a, 'w) state \<Rightarrow> ('a, 'w) state" where
  "say env l st = st\<lparr> world := print env l (world st) \<rparr>"

definition post :: "('a, 'w) env \<Rightarrow> 'a request \<Rightarrow> ('a, 'w) state \<Rightarrow> (exn + int) \<times> ('a, 'w) state" where
  "post env rq st =
     (case requests_post env rq (world st) of
        (r, w) \<Rightarrow> (r, st\<lparr> world := w, wire := wire st @ [rq] \<rparr>))"

section \<open>The scraper functions\<close>

text \<open>
  A scraper takes a subcategory, acts on the world, and returns a list of products or
  raises. It has no access to the histories. The two scrapers of the source are
  placeholders (``implement actual scraping logic''): they print one line and return the
  empty list.
\<close>

type_synonym ('a, 'w) scraper = "string \<Rightarrow> 'w \<Rightarrow> (exn + 'a product list) \<times> 'w"

definition scrape_alibaba_products :: "('a, 'w) env \<Rightarrow> ('a, 'w) scraper" where
  "scrape_alibaba_products env subcategory w =
     (let products = [] in (Inr products, print env (Info_alibaba subcategory) w))"

definition scrape_1688_products :: "('a, 'w) env \<Rightarrow> ('a, 'w) scraper" where
  "scrape_1688_products env subcategory w =
     (let products = [] in (Inr products, print env (Info_1688 subcategory) w))"

section \<open>send_to_webhook\<close>

text \<open>The dict literal of lines 82 to 87, with the timestamp already read.\<close>

definition payload :: "config \<Rightarrow> string \<Rightarrow> 'a product \<Rightarrow> 'a product" where
  "payload cfg now product_data =
     [ (''source'', PStr ''colab''),
       (''gmail_account'', PStr (GMAIL_ACCOUNT cfg)),
       (''timestamp'', PStr now),
       (''product'', PDict product_data) ]"

text \<open>
  The body of the \<^verbatim>\<open>try\<close> (lines 82 to 100) in a world where \<^verbatim>\<open>print\<close> returns and
  every exception derives from \<^verbatim>\<open>Exception\<close>: \<open>Inl e\<close> when a statement raises \<open>e\<close>,
  \<open>Inr b\<close> when it reaches \<^verbatim>\<open>return b\<close>.
\<close>

definition try_send :: "config \<Rightarrow> ('a, 'w) env \<Rightarrow> 'a product \<Rightarrow> ('a, 'w) state \<Rightarrow> (exn + bool) \<times> ('a, 'w) state" where
  "try_send cfg env product_data st =
     (case utcnow_isoformat env (world st) of
        (Inl e, w) \<Rightarrow> (Inl e, st\<lparr> world := w \<rparr>)
      | (Inr now, w) \<Rightarrow>
          (case post env \<lparr> url = WEBHOOK_URL cfg,
                           json = payload cfg now product_data,
                           timeout = SCRAPE_TIMEOUT cfg \<rparr>
                         (st\<lparr> world := w \<rparr>) of
             (Inl e, st1) \<Rightarrow> (Inl e, st1)
           | (Inr status_code, st1) \<Rightarrow>
               if status_code = 200
               then (Inr True, say env (Success (map_of product_data ''name'')) st1)
               else (Inr False, say env (Error_status status_code) st1)))"

text \<open>
  The whole function in such a world: the \<^verbatim>\<open>except Exception\<close> clause prints and
  returns \<^verbatim>\<open>False\<close>. This is the function that the loops of \<^verbatim>\<open>main\<close> below call.
\<close>

definition send_to_webhook :: "config \<Rightarrow> ('a, 'w) env \<Rightarrow> 'a product \<Rightarrow> ('a, 'w) state \<Rightarrow> bool \<times> ('a, 'w) state" where
  "send_to_webhook cfg env product_data st =
     (case try_send cfg env product_data st of
        (Inr b, st1) \<Rightarrow> (b, st1)
      | (Inl e, st1) \<Rightarrow> (False, say env (Error_failed e) st1))"

section \<open>send_to_webhook, with every raise written out\<close>

text \<open>
  What \<^verbatim>\<open>send_to_webhook\<close> returns depends on two things that the definitions above
  leave out. The \<^verbatim>\<open>print\<close> calls of lines 96 and 99 stand inside the \<^verbatim>\<open>try\<close>, so an
  exception of theirs is caught by line 102; the \<^verbatim>\<open>print\<close> of line 103 stands in the
  handler, so an exception of its own leaves the function. And \<^verbatim>\<open>except Exception\<close>
  does not catch an exception that derives from \<^verbatim>\<open>BaseException\<close> only
  (\<^verbatim>\<open>KeyboardInterrupt\<close>, \<^verbatim>\<open>SystemExit\<close>).

  An exception is now of one of the two kinds, and each of the three library calls may
  raise either: \<^verbatim>\<open>print\<close> raises, for example, \<^verbatim>\<open>UnicodeEncodeError\<close> on a line that the
  encoding of the console cannot write.
\<close>

datatype raised = Exception exn | BaseException string

record ('a, 'w) full_env =
  print_full :: "'a line \<Rightarrow> 'w \<Rightarrow> raised option \<times> 'w"
  utcnow_isoformat_full :: "'w \<Rightarrow> (raised + string) \<times> 'w"
  requests_post_full :: "'a request \<Rightarrow> 'w \<Rightarrow> (raised + int) \<times> 'w"

definition say_full :: "('a, 'w) full_env \<Rightarrow> 'a line \<Rightarrow> ('a, 'w) state \<Rightarrow> raised option \<times> ('a, 'w) state" where
  "say_full io l st =
     (case print_full io l (world st) of
        (x, w) \<Rightarrow> (x, st\<lparr> world := w \<rparr>))"

definition post_full :: "('a, 'w) full_env \<Rightarrow> 'a request \<Rightarrow> ('a, 'w) state \<Rightarrow> (raised + int) \<times> ('a, 'w) state" where
  "post_full io rq st =
     (case requests_post_full io rq (world st) of
        (r, w) \<Rightarrow> (r, st\<lparr> world := w, wire := wire st @ [rq] \<rparr>))"

text \<open>
  The body of the \<^verbatim>\<open>try\<close> (lines 82 to 100), every statement of which may raise.
\<close>

definition try_send_full :: "config \<Rightarrow> ('a, 'w) full_env \<Rightarrow> 'a product \<Rightarrow> ('a, 'w) state \<Rightarrow> (raised + bool) \<times> ('a, 'w) state" where
  "try_send_full cfg io product_data st =
     (case utcnow_isoformat_full io (world st) of
        (Inl x, w) \<Rightarrow> (Inl x, st\<lparr> world := w \<rparr>)
      | (Inr now, w) \<Rightarrow>
          (case post_full io \<lparr> url = WEBHOOK_URL cfg,
                               json = payload cfg now product_data,
                               timeout = SCRAPE_TIMEOUT cfg \<rparr>
                             (st\<lparr> world := w \<rparr>) of
             (Inl x, st1) \<Rightarrow> (Inl x, st1)
           | (Inr status_code, st1) \<Rightarrow>
               if status_code = 200
               then (case say_full io (Success (map_of product_data ''name'')) st1 of
                       (Some x, st2) \<Rightarrow> (Inl x, st2)
                     | (None, st2) \<Rightarrow> (Inr True, st2))
               else (case say_full io (Error_status status_code) st1 of
                       (Some x, st2) \<Rightarrow> (Inl x, st2)
                     | (None, st2) \<Rightarrow> (Inr False, st2))))"

text \<open>
  The whole function (lines 81 to 104). \<open>Inl x\<close> is an exception that leaves it:
  one that line 102 does not catch, or one raised by the \<^verbatim>\<open>print\<close> of line 103.
\<close>

definition send_to_webhook_full :: "config \<Rightarrow> ('a, 'w) full_env \<Rightarrow> 'a product \<Rightarrow> ('a, 'w) state \<Rightarrow> (raised + bool) \<times> ('a, 'w) state" where
  "send_to_webhook_full cfg io product_data st =
     (case try_send_full cfg io product_data st of
        (Inr b, st1) \<Rightarrow> (Inr b, st1)
      | (Inl (BaseException x), st1) \<Rightarrow> (Inl (BaseException x), st1)
      | (Inl (Exception e), st1) \<Rightarrow>
          (case say_full io (Error_failed e) st1 of
             (Some x, st2) \<Rightarrow> (Inl x, st2)
           | (None, st2) \<Rightarrow> (Inr False, st2)))"

text \<open>
  The world of the first model, seen as one of these: \<^verbatim>\<open>print\<close> never raises and the
  other two calls raise exceptions that derive from \<^verbatim>\<open>Exception\<close>.
\<close>

definition calm :: "('a, 'w) env \<Rightarrow> ('a, 'w) full_env" where
  "calm env =
     \<lparr> print_full = (\<lambda>l w. (None, print env l w)),
       utcnow_isoformat_full = (\<lambda>w. case utcnow_isoformat env w of (r, w') \<Rightarrow> (map_sum Exception id r, w')),
       requests_post_full = (\<lambda>rq w. case requests_post env rq w of (r, w') \<Rightarrow> (map_sum Exception id r, w')) \<rparr>"

section \<open>main\<close>

text \<open>
  Lines 120 to 123: both scrapers are called, Alibaba first, and their lists are
  appended. A scraper that raises ends the evaluation there.
\<close>

definition aggregate :: "('a, 'w) scraper \<Rightarrow> ('a, 'w) scraper \<Rightarrow> string \<Rightarrow> ('a, 'w) state \<Rightarrow> (exn + 'a product list) \<times> ('a, 'w) state" where
  "aggregate alibaba s1688 subcategory st =
     (case alibaba subcategory (world st) of
        (Inl e, w1) \<Rightarrow> (Inl e, st\<lparr> world := w1 \<rparr>)
      | (Inr alibaba_products, w1) \<Rightarrow>
          (case s1688 subcategory w1 of
             (Inl e, w2) \<Rightarrow> (Inl e, st\<lparr> world := w2 \<rparr>)
           | (Inr products_1688, w2) \<Rightarrow>
               (let all_products = alibaba_products @ products_1688
                in (Inr all_products,
                    st\<lparr> world := w2, scraped := scraped st @ [(subcategory, all_products)] \<rparr>))))"

text \<open>Lines 126 to 130: the loop over \<^verbatim>\<open>all_products\<close>, with the two counters.\<close>

fun send_each :: "config \<Rightarrow> ('a, 'w) env \<Rightarrow> 'a product list \<Rightarrow> int \<times> int \<Rightarrow> ('a, 'w) state \<Rightarrow> (int \<times> int) \<times> ('a, 'w) state" where
  "send_each cfg env [] (total_sent, total_failed) st = ((total_sent, total_failed), st)"
| "send_each cfg env (product # rest) (total_sent, total_failed) st =
     (let (ok, st1) = send_to_webhook cfg env product st;
          (total_sent, total_failed) =
             (if ok then (total_sent + 1, total_failed) else (total_sent, total_failed + 1))
      in send_each cfg env rest (total_sent, total_failed)
           (st1\<lparr> attempts := attempts st1 @
              [\<lparr> item = product, returned = ok,
                 sent_after = total_sent, failed_after = total_failed \<rparr>] \<rparr>))"

text \<open>Lines 116 to 130: the loop over \<^verbatim>\<open>SUBCATEGORIES\<close>.\<close>

fun each_subcategory :: "config \<Rightarrow> ('a, 'w) env \<Rightarrow> ('a, 'w) scraper \<Rightarrow> ('a, 'w) scraper \<Rightarrow> string list \<Rightarrow> int \<times> int \<Rightarrow> ('a, 'w) state \<Rightarrow> (exn + int \<times> int) \<times> ('a, 'w) state" where
  "each_subcategory cfg env alibaba s1688 [] totals st = (Inr totals, st)"
| "each_subcategory cfg env alibaba s1688 (subcategory # rest) totals st =
     (case aggregate alibaba s1688 subcategory (say env (Processing subcategory) st) of
        (Inl e, st1) \<Rightarrow> (Inl e, st1)
      | (Inr all_products, st1) \<Rightarrow>
          (case send_each cfg env all_products totals st1 of
             (totals', st2) \<Rightarrow> each_subcategory cfg env alibaba s1688 rest totals' st2))"

text \<open>
  Lines 110 to 111: the state in which the loop starts.
\<close>

definition started :: "config \<Rightarrow> ('a, 'w) env \<Rightarrow> 'w \<Rightarrow> ('a, 'w) state" where
  "started cfg env w =
     say env (Info_subcategories (SUBCATEGORIES cfg))
       (say env (Start (GMAIL_ACCOUNT cfg)) (fresh w))"

text \<open>
  \<^verbatim>\<open>main\<close> over any two scrapers. The result is the summary, the pair
  \<open>(total_sent, total_failed)\<close> that line 133 prints, or the exception that ended the
  run.
\<close>

definition main_with :: "config \<Rightarrow> ('a, 'w) env \<Rightarrow> ('a, 'w) scraper \<Rightarrow> ('a, 'w) scraper \<Rightarrow> 'w \<Rightarrow> (exn + int \<times> int) \<times> ('a, 'w) state" where
  "main_with cfg env alibaba s1688 w =
     (case each_subcategory cfg env alibaba s1688 (SUBCATEGORIES cfg) (0, 0) (started cfg env w) of
        (Inl e, st) \<Rightarrow> (Inl e, st)
      | (Inr (total_sent, total_failed), st) \<Rightarrow>
          (Inr (total_sent, total_failed),
           say env (Stats total_sent total_failed) (say env Complete st)))"

text \<open>\<^verbatim>\<open>main\<close> as the file has it, with its two placeholder scrapers.\<close>

definition main :: "config \<Rightarrow> ('a, 'w) env \<Rightarrow> 'w \<Rightarrow> (exn + int \<times> int) \<times> ('a, 'w) state" where
  "main cfg env w =
     main_with cfg env (scrape_alibaba_products env) (scrape_1688_products env) w"

section \<open>Notions for stating the properties\<close>

text \<open>
  The number of attempts in a history that returned \<^verbatim>\<open>True\<close>, and the number that
  returned \<^verbatim>\<open>False\<close>.
\<close>

definition tally :: "'a attempt list \<Rightarrow> int \<times> int" where
  "tally h = (int (length (filter returned h)), int (length (filter (\<lambda>a. \<not> returned a) h)))"

text \<open>
  A history is consistent when the counters recorded in each entry are the tally of the
  history up to and including that entry.
\<close>

definition consistent :: "'a attempt list \<Rightarrow> bool" where
  "consistent h = (\<forall>k < length h. (sent_after (h ! k), failed_after (h ! k)) = tally (take (Suc k) h))"

text \<open>The value under the key \<^verbatim>\<open>product\<close> in the body of a request.\<close>

definition product_field :: "'a request \<Rightarrow> 'a pyval option" where
  "product_field rq = map_of (json rq) ''product''"

text \<open>
  The invariant of the loop over the subcategories: the records attempted are the records
  scraped, in order; the counters were kept right; the products on the wire are among
  the records scraped, in order.
\<close>

definition sound :: "('a, 'w) state \<Rightarrow> bool" where
  "sound st \<longleftrightarrow>
     map item (attempts st) = concat (map snd (scraped st)) \<and>
     consistent (attempts st) \<and>
     subseq (map product_field (wire st)) (map (\<lambda>p. Some (PDict p)) (concat (map snd (scraped st))))"

section \<open>Test doubles\<close>

text \<open>
  A world that is the console alone: \<open>print\<close> appends the line, the clock always
  gives the same answer, and the endpoint's answer depends on the request only.
\<close>

definition console :: "(exn + string) \<Rightarrow> ('a request \<Rightarrow> exn + int) \<Rightarrow> ('a, 'a line list) env" where
  "console clock endpoint =
     \<lparr> print = (\<lambda>l w. w @ [l]),
       utcnow_isoformat = (\<lambda>w. (clock, w)),
       requests_post = (\<lambda>rq w. (endpoint rq, w)) \<rparr>"

text \<open>A scraper that looks the subcategory up in a table and finds nothing elsewhere.\<close>

definition listing :: "(string \<times> (exn + 'a product list)) list \<Rightarrow> ('a, 'w) scraper" where
  "listing table subcategory w =
     (case map_of table subcategory of
        None \<Rightarrow> (Inr [], w)
      | Some r \<Rightarrow> (r, w))"

definition vest :: "unit product" where
  "vest = [(''name'', PStr ''Wool vest''), (''price'', PObj ())]"

definition cravat :: "unit product" where
  "cravat = [(''name'', PStr ''Silk cravat'')]"

definition shorts :: "unit product" where
  "shorts = [(''images'', PObj ())]"

text \<open>An endpoint that answers 200 to the one product it knows and 503 to the rest.\<close>

definition accepts_only :: "'a product \<Rightarrow> 'a request \<Rightarrow> exn + int" where
  "accepts_only p rq = (if product_field rq = Some (PDict p) then Inr 200 else Inr 503)"

definition noon :: string where
  "noon = ''2024-05-01T12:00:00''"

text \<open>
  The same console with a \<^verbatim>\<open>print\<close> that may refuse a line. An ASCII console refuses
  the line 96 prints for a product whose name has a byte above 127.
\<close>

definition console_full :: "('a line \<Rightarrow> raised option) \<Rightarrow> (raised + string) \<Rightarrow> ('a request \<Rightarrow> raised + int) \<Rightarrow> ('a, 'a line list) full_env" where
  "console_full refuses clock endpoint =
     \<lparr> print_full = (\<lambda>l w. case refuses l of Some x \<Rightarrow> (Some x, w) | None \<Rightarrow> (None, w @ [l])),
       utcnow_isoformat_full = (\<lambda>w. (clock, w)),
       requests_post_full = (\<lambda>rq w. (endpoint rq, w)) \<rparr>"

definition ascii_stdout :: "'a line \<Rightarrow> raised option" where
  "ascii_stdout l =
     (case l of
        Success (Some (PStr name)) \<Rightarrow>
          if list_ex (\<lambda>c. 127 < (of_char c :: nat)) name
          then Some (Exception (Raised ''UnicodeEncodeError''))
          else None
      | _ \<Rightarrow> None)"

text \<open>A product whose name is not ASCII (two Chinese characters, in UTF-8).\<close>

definition wool_vest :: "unit product" where
  "wool_vest = [(''name'', PStr [CHR 0xE7, CHR 0xBE, CHR 0x8A, CHR 0xE6, CHR 0xAF, CHR 0x9B])]"

text \<open>Configurations that differ from the file's in the list of subcategories only.\<close>

definition vests_only :: config where
  "vests_only = source_config\<lparr> SUBCATEGORIES := [''Vests''] \<rparr>"

definition three_stops :: config where
  "three_stops = source_config\<lparr> SUBCATEGORIES := [''Vests'', ''Cravats'', ''Hats''] \<rparr>"

definition no_stops :: config where
  "no_stops = source_config\<lparr> SUBCATEGORIES := [] \<rparr>"

section \<open>Auxiliary facts\<close>

lemma say_histories [simp]:
  "wire (say env l st) = wire st"
  "attempts (say env l st) = attempts st"
  "scraped (say env l st) = scraped st"
  by (simp_all add: say_def)

lemma send_to_webhook_histories [simp]:
  "attempts (snd (send_to_webhook cfg env p st)) = attempts st"
  "scraped (snd (send_to_webhook cfg env p st)) = scraped st"
  by (auto simp: send_to_webhook_def try_send_def post_def say_def split: prod.splits sum.splits)

lemma send_to_webhook_wire:
  "wire (snd (send_to_webhook cfg env p st)) =
     (case utcnow_isoformat env (world st) of
        (Inl e, w) \<Rightarrow> wire st
      | (Inr now, w) \<Rightarrow>
          wire st @ [\<lparr> url = WEBHOOK_URL cfg, json = payload cfg now p, timeout = SCRAPE_TIMEOUT cfg \<rparr>])"
  by (auto simp: send_to_webhook_def try_send_def post_def say_def split: prod.splits sum.splits)

lemma send_to_webhook_value:
  "fst (send_to_webhook cfg env p st) =
     (case utcnow_isoformat env (world st) of
        (Inl e, w) \<Rightarrow> False
      | (Inr now, w) \<Rightarrow>
          fst (requests_post env \<lparr> url = WEBHOOK_URL cfg, json = payload cfg now p, timeout = SCRAPE_TIMEOUT cfg \<rparr> w) = Inr 200)"
  by (auto simp: send_to_webhook_def try_send_def post_def say_def split: prod.splits sum.splits)

lemma tally_snoc:
  "tally (h @ [a]) = (if returned a then (fst (tally h) + 1, snd (tally h)) else (fst (tally h), snd (tally h) + 1))"
  by (simp add: tally_def)

lemma consistent_snoc:
  "consistent h \<Longrightarrow> tally (h @ [a]) = (sent_after a, failed_after a) \<Longrightarrow> consistent (h @ [a])"
  unfolding consistent_def
  by (auto simp: nth_append less_Suc_eq)

lemma send_each_scraped [simp]:
  "scraped (snd (send_each cfg env ps (s, f) st)) = scraped st"
  by (induction ps arbitrary: s f st) (auto simp: split_beta Let_def)

lemma send_each_items:
  "map item (attempts (snd (send_each cfg env ps (s, f) st))) = map item (attempts st) @ ps"
  by (induction ps arbitrary: s f st) (auto simp: split_beta Let_def)

lemma send_each_tally:
  "tally (attempts st) = (s, f) \<Longrightarrow>
   fst (send_each cfg env ps (s, f) st) = tally (attempts (snd (send_each cfg env ps (s, f) st)))"
proof (induction ps arbitrary: s f st)
  case Nil
  then show ?case by simp
next
  case (Cons p ps)
  show ?case using Cons.prems
    by (auto simp: split_beta Let_def tally_snoc intro!: Cons.IH)
qed

lemma send_each_consistent:
  "tally (attempts st) = (s, f) \<Longrightarrow> consistent (attempts st) \<Longrightarrow>
   consistent (attempts (snd (send_each cfg env ps (s, f) st)))"
proof (induction ps arbitrary: s f st)
  case Nil
  then show ?case by simp
next
  case (Cons p ps)
  show ?case using Cons.prems
    by (auto simp: split_beta Let_def tally_snoc intro!: Cons.IH consistent_snoc)
qed

lemma aggregate_histories [simp]:
  "wire (snd (aggregate alibaba s1688 c st)) = wire st"
  "attempts (snd (aggregate alibaba s1688 c st)) = attempts st"
  by (auto simp: aggregate_def Let_def split: prod.splits sum.splits)

lemma aggregate_scraped:
  "scraped (snd (aggregate alibaba s1688 c st)) =
     (case fst (aggregate alibaba s1688 c st) of
        Inl e \<Rightarrow> scraped st
      | Inr ps \<Rightarrow> scraped st @ [(c, ps)])"
  by (auto simp: aggregate_def Let_def split: prod.splits sum.splits)

lemma send_each_wire:
  "\<exists>new. wire (snd (send_each cfg env ps (s, f) st)) = wire st @ new
        \<and> subseq (map product_field new) (map (\<lambda>p. Some (PDict p)) ps)"
proof (induction ps arbitrary: s f st)
  case Nil
  show ?case by simp
next
  case (Cons p ps)
  define st1 where "st1 = snd (send_to_webhook cfg env p st)"
  have one: "wire st1 = wire st \<or> (\<exists>rq. wire st1 = wire st @ [rq] \<and> product_field rq = Some (PDict p))"
    unfolding st1_def
    by (auto simp: send_to_webhook_wire product_field_def payload_def split: prod.splits sum.splits)
  obtain s' f' st2 where step:
    "send_each cfg env (p # ps) (s, f) st = send_each cfg env ps (s', f') st2" "wire st2 = wire st1"
    by (cases "fst (send_to_webhook cfg env p st)") (auto simp: split_beta Let_def st1_def)
  from Cons.IH [of s' f' st2] obtain new where
    new: "wire (snd (send_each cfg env ps (s', f') st2)) = wire st2 @ new"
         "subseq (map product_field new) (map (\<lambda>p. Some (PDict p)) ps)"
    by blast
  from one show ?case
  proof
    assume "wire st1 = wire st"
    with new step show ?thesis by (auto intro: subseq_Cons')
  next
    assume "\<exists>rq. wire st1 = wire st @ [rq] \<and> product_field rq = Some (PDict p)"
    then obtain rq where "wire st1 = wire st @ [rq]" "product_field rq = Some (PDict p)" by blast
    with new step show ?thesis
      by (intro exI [of _ "rq # new"]) simp
  qed
qed

lemma send_each_sound:
  assumes "sound st" and "tally (attempts st) = (s, f)"
    and "scraped st1 = scraped st @ [(c, ps)]" and "attempts st1 = attempts st" and "wire st1 = wire st"
  shows "sound (snd (send_each cfg env ps (s, f) st1))"
proof -
  let ?st2 = "snd (send_each cfg env ps (s, f) st1)"
  have "map item (attempts ?st2) = concat (map snd (scraped ?st2))"
    using assms send_each_items [of cfg env ps s f st1] by (simp add: sound_def)
  moreover have "consistent (attempts ?st2)"
    using assms send_each_consistent [of st1 s f cfg env ps] by (simp add: sound_def)
  moreover have "subseq (map product_field (wire ?st2))
      (map (\<lambda>p. Some (PDict p)) (concat (map snd (scraped ?st2))))"
  proof -
    obtain new where new: "wire ?st2 = wire st1 @ new"
      "subseq (map product_field new) (map (\<lambda>p. Some (PDict p)) ps)"
      using send_each_wire [of cfg env ps s f st1] by blast
    have "subseq (map product_field (wire st)) (map (\<lambda>p. Some (PDict p)) (concat (map snd (scraped st))))"
      using assms(1) by (simp add: sound_def)
    from list_emb_append_mono [OF this new(2)] show ?thesis
      using assms(3,5) new(1) by simp
  qed
  ultimately show ?thesis by (simp add: sound_def)
qed

lemma each_subcategory_sound:
  "sound st \<Longrightarrow> tally (attempts st) = (s, f) \<Longrightarrow>
   sound (snd (each_subcategory cfg env alibaba s1688 cs (s, f) st)) \<and>
   (\<forall>t. fst (each_subcategory cfg env alibaba s1688 cs (s, f) st) = Inr t \<longrightarrow>
        tally (attempts (snd (each_subcategory cfg env alibaba s1688 cs (s, f) st))) = t)"
proof (induction cs arbitrary: s f st)
  case Nil
  then show ?case by simp
next
  case (Cons c cs)
  let ?st0 = "say env (Processing c) st"
  show ?case
  proof (cases "aggregate alibaba s1688 c ?st0")
    case (Pair r st1)
    have h: "attempts st1 = attempts st" "wire st1 = wire st"
      "scraped st1 = (case r of Inl e \<Rightarrow> scraped st | Inr ps \<Rightarrow> scraped st @ [(c, ps)])"
      using aggregate_histories [of alibaba s1688 c ?st0] aggregate_scraped [of alibaba s1688 c ?st0]
      by (simp_all add: Pair split: sum.splits)
    show ?thesis
    proof (cases r)
      case (Inl e)
      with Pair h Cons.prems show ?thesis by (simp add: sound_def)
    next
      case (Inr ps)
      obtain s' f' st2 where se: "send_each cfg env ps (s, f) st1 = ((s', f'), st2)"
        by (metis prod.exhaust)
      have "sound st2"
        using send_each_sound [OF Cons.prems, of st1 c ps cfg env] h by (simp add: Inr se)
      moreover have "tally (attempts st2) = (s', f')"
        using send_each_tally [of st1 s f cfg env ps] h Cons.prems(2) by (simp add: se)
      ultimately show ?thesis
        using Cons.IH [of st2 s' f'] by (simp add: Pair Inr se)
    qed
  qed
qed

lemma each_subcategory_order:
  "\<exists>seen. map fst (scraped (snd (each_subcategory cfg env alibaba s1688 cs (s, f) st))) =
            map fst (scraped st) @ seen
        \<and> prefix seen cs
        \<and> (\<forall>t. fst (each_subcategory cfg env alibaba s1688 cs (s, f) st) = Inr t \<longrightarrow> seen = cs)"
proof (induction cs arbitrary: s f st)
  case Nil
  show ?case by simp
next
  case (Cons c cs)
  let ?st0 = "say env (Processing c) st"
  show ?case
  proof (cases "aggregate alibaba s1688 c ?st0")
    case (Pair r st1)
    have h: "scraped st1 = (case r of Inl e \<Rightarrow> scraped st | Inr ps \<Rightarrow> scraped st @ [(c, ps)])"
      using aggregate_scraped [of alibaba s1688 c ?st0]
      by (simp add: Pair split: sum.splits)
    show ?thesis
    proof (cases r)
      case (Inl e)
      with Pair h show ?thesis by simp
    next
      case (Inr ps)
      obtain s' f' st2 where se: "send_each cfg env ps (s, f) st1 = ((s', f'), st2)"
        by (metis prod.exhaust)
      have sc: "scraped st2 = scraped st @ [(c, ps)]"
        using send_each_scraped [of cfg env ps s f st1] h by (simp add: se Inr)
      from Cons.IH [of s' f' st2] obtain seen where
        "map fst (scraped (snd (each_subcategory cfg env alibaba s1688 cs (s', f') st2))) =
            map fst (scraped st2) @ seen"
        "prefix seen cs"
        "\<forall>t. fst (each_subcategory cfg env alibaba s1688 cs (s', f') st2) = Inr t \<longrightarrow> seen = cs"
        by blast
      then show ?thesis
        by (intro exI [of _ "c # seen"]) (simp add: Pair Inr se sc)
    qed
  qed
qed

lemma aggregate_Inr:
  "(\<And>c w. \<not> isl (fst (alibaba c w))) \<Longrightarrow> (\<And>c w. \<not> isl (fst (s1688 c w))) \<Longrightarrow>
   \<not> isl (fst (aggregate alibaba s1688 c st))"
proof -
  assume a: "\<And>c w. \<not> isl (fst (alibaba c w))" and b: "\<And>c w. \<not> isl (fst (s1688 c w))"
  obtain r1 w1 where r1: "alibaba c (world st) = (r1, w1)" by (metis prod.exhaust)
  obtain r2 w2 where r2: "s1688 c w1 = (r2, w2)" by (metis prod.exhaust)
  from a [of c "world st"] r1 obtain xs where "r1 = Inr xs" by (cases r1) auto
  moreover from b [of c w1] r2 obtain ys where "r2 = Inr ys" by (cases r2) auto
  ultimately show ?thesis using r1 r2 by (simp add: aggregate_def Let_def)
qed

lemma each_subcategory_Inr:
  "(\<And>c w. \<not> isl (fst (alibaba c w))) \<Longrightarrow> (\<And>c w. \<not> isl (fst (s1688 c w))) \<Longrightarrow>
   \<not> isl (fst (each_subcategory cfg env alibaba s1688 cs (s, f) st))"
proof (induction cs arbitrary: s f st)
  case Nil
  show ?case by simp
next
  case (Cons c cs)
  let ?st0 = "say env (Processing c) st"
  obtain r st1 where ag: "aggregate alibaba s1688 c ?st0 = (r, st1)" by (metis prod.exhaust)
  from aggregate_Inr [of alibaba s1688 c ?st0] Cons.prems ag
  obtain ps where r: "r = Inr ps" by (cases r) auto
  obtain s' f' st2 where se: "send_each cfg env ps (s, f) st1 = ((s', f'), st2)"
    by (metis prod.exhaust)
  show ?case using Cons.IH [OF Cons.prems, of s' f' st2] by (simp add: ag r se)
qed

lemma each_subcategory_append:
  "each_subcategory cfg env alibaba s1688 (cs @ ds) (s, f) st =
     (case each_subcategory cfg env alibaba s1688 cs (s, f) st of
        (Inl e, st1) \<Rightarrow> (Inl e, st1)
      | (Inr t, st1) \<Rightarrow> each_subcategory cfg env alibaba s1688 ds t st1)"
proof (induction cs arbitrary: s f st)
  case Nil
  show ?case by simp
next
  case (Cons c cs)
  show ?case
    by (auto simp: Cons.IH split: prod.splits sum.splits)
qed

lemma payload_cap [simp]:
  "payload (cfg\<lparr> RATE_LIMIT_PER_MINUTE := r \<rparr>) = payload cfg"
  by (simp add: payload_def fun_eq_iff)

lemma try_send_cap [simp]:
  "try_send (cfg\<lparr> RATE_LIMIT_PER_MINUTE := r \<rparr>) env p st = try_send cfg env p st"
  by (simp add: try_send_def split: prod.splits sum.splits)

lemma send_to_webhook_cap [simp]:
  "send_to_webhook (cfg\<lparr> RATE_LIMIT_PER_MINUTE := r \<rparr>) env p st = send_to_webhook cfg env p st"
  by (simp add: send_to_webhook_def)

lemma send_each_cap [simp]:
  "send_each (cfg\<lparr> RATE_LIMIT_PER_MINUTE := r \<rparr>) env ps (s, f) st = send_each cfg env ps (s, f) st"
  by (induction ps arbitrary: s f st) (simp_all add: split_beta Let_def)

lemma each_subcategory_cap [simp]:
  "each_subcategory (cfg\<lparr> RATE_LIMIT_PER_MINUTE := r \<rparr>) env alibaba s1688 cs (s, f) st =
     each_subcategory cfg env alibaba s1688 cs (s, f) st"
  by (induction cs arbitrary: s f st) (auto split: prod.splits sum.splits)

lemma sound_started: "sound (started cfg env w)" "tally (attempts (started cfg env w)) = (0, 0)"
  by (simp_all add: sound_def started_def fresh_def consistent_def tally_def)

lemma main_with_sound:
  assumes "main_with cfg env alibaba s1688 w = (r, st)"
  shows "sound st" and "r = Inr (sent, failed) \<Longrightarrow> tally (attempts st) = (sent, failed)"
proof -
  let ?run = "each_subcategory cfg env alibaba s1688 (SUBCATEGORIES cfg) (0, 0) (started cfg env w)"
  have "sound (snd ?run) \<and> (\<forall>t. fst ?run = Inr t \<longrightarrow> tally (attempts (snd ?run)) = t)"
    by (rule each_subcategory_sound [OF sound_started])
  then have inv: "sound (snd ?run)" "\<And>t. fst ?run = Inr t \<Longrightarrow> tally (attempts (snd ?run)) = t"
    by blast+
  obtain r0 st0 where run: "?run = (r0, st0)" by (metis prod.exhaust)
  show "sound st"
    using assms inv(1) run
    by (cases r0) (auto simp: main_with_def sound_def split: prod.splits)
  show "tally (attempts st) = (sent, failed)" if "r = Inr (sent, failed)"
    using assms inv(2) run that
    by (cases r0) (auto simp: main_with_def split: prod.splits)
qed

lemma main_with_order:
  assumes "main_with cfg env alibaba s1688 w = (r, st)"
  shows "prefix (map fst (scraped st)) (SUBCATEGORIES cfg)"
    and "r = Inr t \<Longrightarrow> map fst (scraped st) = SUBCATEGORIES cfg"
proof -
  let ?run = "each_subcategory cfg env alibaba s1688 (SUBCATEGORIES cfg) (0, 0) (started cfg env w)"
  obtain seen where seen: "map fst (scraped (snd ?run)) = map fst (scraped (started cfg env w)) @ seen"
    "prefix seen (SUBCATEGORIES cfg)" "\<And>t. fst ?run = Inr t \<Longrightarrow> seen = SUBCATEGORIES cfg"
    using each_subcategory_order [of cfg env alibaba s1688 "SUBCATEGORIES cfg" 0 0 "started cfg env w"]
    by blast
  have s0: "scraped (started cfg env w) = []" by (simp add: started_def fresh_def)
  obtain r0 st0 where run: "?run = (r0, st0)" by (metis prod.exhaust)
  show "prefix (map fst (scraped st)) (SUBCATEGORIES cfg)"
    using assms seen(1,2) run s0
    by (cases r0) (auto simp: main_with_def split: prod.splits)
  show "map fst (scraped st) = SUBCATEGORIES cfg" if "r = Inr t"
    using assms seen(1,3) run s0 that
    by (cases r0) (auto simp: main_with_def split: prod.splits)
qed

lemma tally_sum: "fst (tally h) + snd (tally h) = int (length h)"
  using sum_length_filter_compl [of returned h] by (simp add: tally_def)

lemma tally_nonneg: "0 \<le> fst (tally h)" "0 \<le> snd (tally h)"
  by (simp_all add: tally_def)

lemma tally_all:
  "(\<forall>a \<in> set h. returned a) \<Longrightarrow> tally h = (int (length h), 0)"
  "(\<forall>a \<in> set h. \<not> returned a) \<Longrightarrow> tally h = (0, int (length h))"
  by (simp_all add: tally_def)

lemma send_each_wire_length:
  assumes "\<forall>v. \<not> isl (fst (utcnow_isoformat env v))"
  shows "length (wire (snd (send_each cfg env ps (s, f) st))) = length (wire st) + length ps"
proof (induction ps arbitrary: s f st)
  case Nil
  show ?case by simp
next
  case (Cons p ps)
  have "length (wire (snd (send_to_webhook cfg env p st))) = length (wire st) + 1"
    using assms [rule_format, of "world st"]
    by (auto simp: send_to_webhook_wire split: prod.splits sum.splits)
  then show ?case
    by (cases "fst (send_to_webhook cfg env p st)") (simp_all add: split_beta Let_def Cons.IH)
qed

lemma send_each_attempts_length:
  "length (attempts (snd (send_each cfg env ps (s, f) st))) = length (attempts st) + length ps"
  using send_each_items [of cfg env ps s f st, THEN arg_cong, of length] by simp

lemma each_subcategory_wire_length:
  assumes "\<forall>v. \<not> isl (fst (utcnow_isoformat env v))"
  shows "length (wire st) = length (attempts st) \<Longrightarrow>
     length (wire (snd (each_subcategory cfg env alibaba s1688 cs (s, f) st))) =
     length (attempts (snd (each_subcategory cfg env alibaba s1688 cs (s, f) st)))"
proof (induction cs arbitrary: s f st)
  case Nil
  then show ?case by simp
next
  case (Cons c cs)
  let ?st0 = "say env (Processing c) st"
  obtain r st1 where ag: "aggregate alibaba s1688 c ?st0 = (r, st1)" by (metis prod.exhaust)
  have h: "attempts st1 = attempts st" "wire st1 = wire st"
    using aggregate_histories [of alibaba s1688 c ?st0] by (simp_all add: ag)
  show ?case
  proof (cases r)
    case (Inl e)
    with ag h Cons.prems show ?thesis by simp
  next
    case (Inr ps)
    obtain s' f' st2 where se: "send_each cfg env ps (s, f) st1 = ((s', f'), st2)"
      by (metis prod.exhaust)
    have "length (wire st2) = length (attempts st2)"
      using send_each_wire_length [OF assms, of cfg ps s f st1]
            send_each_attempts_length [of cfg env ps s f st1] h Cons.prems
      by (simp add: se)
    from Cons.IH [OF this] show ?thesis by (simp add: ag Inr se)
  qed
qed

lemma main_with_histories:
  "wire (snd (main_with cfg env alibaba s1688 w)) =
     wire (snd (each_subcategory cfg env alibaba s1688 (SUBCATEGORIES cfg) (0, 0) (started cfg env w)))"
  "attempts (snd (main_with cfg env alibaba s1688 w)) =
     attempts (snd (each_subcategory cfg env alibaba s1688 (SUBCATEGORIES cfg) (0, 0) (started cfg env w)))"
  "scraped (snd (main_with cfg env alibaba s1688 w)) =
     scraped (snd (each_subcategory cfg env alibaba s1688 (SUBCATEGORIES cfg) (0, 0) (started cfg env w)))"
  by (auto simp: main_with_def split: prod.splits sum.splits)

lemma consistent_before:
  assumes "consistent h" and "k < length h"
  shows "(if k = 0 then (0, 0) else (sent_after (h ! (k - 1)), failed_after (h ! (k - 1)))) = tally (take k h)"
proof (cases k)
  case 0
  then show ?thesis by (simp add: tally_def)
next
  case (Suc j)
  with assms have "(sent_after (h ! j), failed_after (h ! j)) = tally (take (Suc j) h)"
    by (simp add: consistent_def)
  with Suc show ?thesis by simp
qed

lemma consistent_at:
  assumes "consistent h" and "k < length h"
  shows "(sent_after (h ! k), failed_after (h ! k)) =
           (if returned (h ! k) then (fst (tally (take k h)) + 1, snd (tally (take k h)))
            else (fst (tally (take k h)), snd (tally (take k h)) + 1))"
proof -
  have "(sent_after (h ! k), failed_after (h ! k)) = tally (take k h @ [h ! k])"
    using assms by (simp add: consistent_def take_Suc_conv_app_nth)
  then show ?thesis by (simp only: tally_snoc)
qed

text \<open>
  With the two placeholder scrapers, as the file stands, no subcategory yields a record:
  \<^verbatim>\<open>main\<close> ends with the summary \<open>(0, 0)\<close> and posts nothing. The claims below are
  proved for \<open>main_with\<close>, that is for any two scrapers, these two included.
\<close>

lemma placeholders_find_nothing:
  "fst (each_subcategory cfg env (scrape_alibaba_products env) (scrape_1688_products env) cs (s, f) st)
     = Inr (s, f)
   \<and> wire (snd (each_subcategory cfg env (scrape_alibaba_products env) (scrape_1688_products env) cs (s, f) st))
     = wire st
   \<and> attempts (snd (each_subcategory cfg env (scrape_alibaba_products env) (scrape_1688_products env) cs (s, f) st))
     = attempts st"
  by (induction cs arbitrary: st)
     (simp_all add: aggregate_def scrape_alibaba_products_def scrape_1688_products_def say_def)

lemma main_as_written:
  "fst (main cfg env w) = Inr (0, 0)"
  "wire (snd (main cfg env w)) = []"
  "attempts (snd (main cfg env w)) = []"
proof -
  let ?run = "each_subcategory cfg env (scrape_alibaba_products env) (scrape_1688_products env)
                (SUBCATEGORIES cfg) (0, 0) (started cfg env w)"
  have "fst ?run = Inr (0, 0)" "wire (snd ?run) = []" "attempts (snd ?run) = []"
    using placeholders_find_nothing [of cfg env "SUBCATEGORIES cfg" 0 0 "started cfg env w"]
    by (simp_all add: started_def fresh_def)
  then show "fst (main cfg env w) = Inr (0, 0)" "wire (snd (main cfg env w)) = []"
    "attempts (snd (main cfg env w)) = []"
    by (cases ?run; simp add: main_def main_with_def)+
qed

text \<open>
  In a world where \<^verbatim>\<open>print\<close> returns and every exception derives from
  \<^verbatim>\<open>Exception\<close>, the two models of \<^verbatim>\<open>send_to_webhook\<close> agree.
\<close>

lemma send_to_webhook_full_calm:
  "send_to_webhook_full cfg (calm env) product_data st =
     (case send_to_webhook cfg env product_data st of (b, st') \<Rightarrow> (Inr b, st'))"
  by (auto simp: send_to_webhook_full_def try_send_full_def post_full_def say_full_def calm_def
                 send_to_webhook_def try_send_def post_def say_def
           split: prod.splits sum.splits raised.splits option.splits)

section \<open>The claims\<close>

lemmas sink_defs =
  send_to_webhook_full_def try_send_full_def post_full_def say_full_def console_full_def
  ascii_stdout_def payload_def wool_vest_def vest_def source_config_def fresh_def noon_def

lemmas run_defs =
  main_with_def started_def fresh_def say_def console_def listing_def aggregate_def
  send_to_webhook_def try_send_def post_def payload_def product_field_def accepts_only_def
  source_config_def vests_only_def three_stops_def no_stops_def
  vest_def cravat_def shorts_def noon_def Let_def








text \<open>
  Claim C4. When the timestamp is read, \<^verbatim>\<open>send_to_webhook\<close> posts one request to
  \<^verbatim>\<open>WEBHOOK_URL\<close> whose body has exactly four fields, in this order: \<^verbatim>\<open>source\<close>, the
  constant \<^verbatim>\<open>colab\<close>; \<^verbatim>\<open>gmail_account\<close>, the configured \<^verbatim>\<open>GMAIL_ACCOUNT\<close>;
  \<^verbatim>\<open>timestamp\<close>, the text that \<^verbatim>\<open>datetime.utcnow().isoformat()\<close> gave at that call;
  \<^verbatim>\<open>product\<close>, the record it was given. The body is a term in the configuration, the
  timestamp and the record, and in nothing else. When reading the timestamp raises,
  nothing is posted.
\<close>

theorem envelope_fields:
  "wire (snd (send_to_webhook cfg env product_data st)) =
     (case utcnow_isoformat env (world st) of
        (Inl e, w) \<Rightarrow> wire st
      | (Inr now, w) \<Rightarrow>
          wire st @
          [\<lparr> url = WEBHOOK_URL cfg,
             json = [ (''source'', PStr ''colab''),
                      (''gmail_account'', PStr (GMAIL_ACCOUNT cfg)),
                      (''timestamp'', PStr now),
                      (''product'', PDict product_data) ],
             timeout = SCRAPE_TIMEOUT cfg \<rparr>])"
  by (simp add: send_to_webhook_wire payload_def split: prod.splits sum.splits)

text \<open>
  Claim C5. For a subcategory on which the Alibaba scraper returns \<open>alibaba_products\<close>
  and then the 1688 scraper, called in the world that the first one left, returns
  \<open>products_1688\<close>, the value of \<^verbatim>\<open>all_products\<close> is \<open>alibaba_products @ products_1688\<close>:
  its first \<open>length alibaba_products\<close> elements are \<open>alibaba_products\<close> and the rest is
  \<open>products_1688\<close>, each in its own order.
\<close>

theorem aggregate_concatenates:
  assumes "alibaba subcategory (world st) = (Inr alibaba_products, w1)"
    and "s1688 subcategory w1 = (Inr products_1688, w2)"
  shows "fst (aggregate alibaba s1688 subcategory st) = Inr (alibaba_products @ products_1688) \<and>
         scraped (snd (aggregate alibaba s1688 subcategory st)) =
           scraped st @ [(subcategory, alibaba_products @ products_1688)] \<and>
         take (length alibaba_products) (alibaba_products @ products_1688) = alibaba_products \<and>
         drop (length alibaba_products) (alibaba_products @ products_1688) = products_1688"
  using assms by (simp add: aggregate_def Let_def)

theorem aggregate_concatenates_witness:
  "listing [(''Vests'', Inr [vest, shorts])] ''Vests'' (world (fresh ([] :: unit line list)))
     = (Inr [vest, shorts], [])
   \<and> listing [(''Vests'', Inr [cravat])] ''Vests'' ([] :: unit line list) = (Inr [cravat], [])
   \<and> fst (aggregate (listing [(''Vests'', Inr [vest, shorts])]) (listing [(''Vests'', Inr [cravat])])
        ''Vests'' (fresh ([] :: unit line list))) = Inr [vest, shorts, cravat]"
proof -
  have a: "listing [(''Vests'', Inr [vest, shorts])] ''Vests'' (world (fresh ([] :: unit line list)))
     = (Inr [vest, shorts], [])"
    by (simp add: listing_def fresh_def)
  have b: "listing [(''Vests'', Inr [cravat])] ''Vests'' ([] :: unit line list) = (Inr [cravat], [])"
    by (simp add: listing_def)
  from aggregate_concatenates
         [of "listing [(''Vests'', Inr [vest, shorts])]" "''Vests''" "fresh ([] :: unit line list)"
             "[vest, shorts]" "[]" "listing [(''Vests'', Inr [cravat])]", OF a b]
       a b
  show ?thesis by simp
qed

text \<open>
  Claim C6. Let the subcategories before \<open>subcategory\<close> be processed without a scraper
  raising, ending in the state \<open>st\<close>, and let a scraper raise \<open>e\<close> on \<open>subcategory\<close>
  (the Alibaba scraper, or the 1688 scraper after the Alibaba scraper returned), leaving
  the world \<open>w'\<close>. Then the run ends with \<open>e\<close>, in the state \<open>st\<close> with the world \<open>w'\<close>:
  its histories are those of \<open>st\<close>, so no record of \<open>subcategory\<close> or of a later
  subcategory is sent, and nothing is printed after the scraper raised, the summary
  included.
\<close>

theorem scraper_exception_ends_run:
  assumes "SUBCATEGORIES cfg = before @ subcategory # after"
    and "each_subcategory cfg env alibaba s1688 before (0, 0) (started cfg env w) = (Inr totals, st)"
    and "alibaba subcategory (print env (Processing subcategory) (world st)) = (Inl e, w')
         \<or> (\<exists>ps w1. alibaba subcategory (print env (Processing subcategory) (world st)) = (Inr ps, w1)
                  \<and> s1688 subcategory w1 = (Inl e, w'))"
  shows "main_with cfg env alibaba s1688 w = (Inl e, st\<lparr> world := w' \<rparr>)"
proof -
  have "aggregate alibaba s1688 subcategory (say env (Processing subcategory) st) = (Inl e, st\<lparr> world := w' \<rparr>)"
    using assms(3) by (elim disjE exE conjE) (simp_all add: aggregate_def say_def)
  then have "each_subcategory cfg env alibaba s1688 (subcategory # after) totals st = (Inl e, st\<lparr> world := w' \<rparr>)"
    by (cases totals) simp
  then have "each_subcategory cfg env alibaba s1688 (SUBCATEGORIES cfg) (0, 0) (started cfg env w)
      = (Inl e, st\<lparr> world := w' \<rparr>)"
    using assms(1,2) by (simp add: each_subcategory_append)
  then show ?thesis by (simp add: main_with_def)
qed

theorem scraper_exception_ends_run_witness:
  "SUBCATEGORIES three_stops = [''Vests''] @ ''Cravats'' # [''Hats'']
   \<and> fst (each_subcategory three_stops (console (Inr noon) (\<lambda>rq. Inr 200))
        (listing [(''Vests'', Inr [vest]), (''Hats'', Inr [shorts])])
        (listing [(''Cravats'', Inl Timeout)]) [''Vests''] (0, 0)
        (started three_stops (console (Inr noon) (\<lambda>rq. Inr 200)) [])) = Inr (1, 0)
   \<and> fst (main_with three_stops (console (Inr noon) (\<lambda>rq. Inr 200))
        (listing [(''Vests'', Inr [vest]), (''Hats'', Inr [shorts])])
        (listing [(''Cravats'', Inl Timeout)]) []) = Inl Timeout
   \<and> map item (attempts (snd (main_with three_stops (console (Inr noon) (\<lambda>rq. Inr 200))
        (listing [(''Vests'', Inr [vest]), (''Hats'', Inr [shorts])])
        (listing [(''Cravats'', Inl Timeout)]) []))) = [vest]
   \<and> world (snd (main_with three_stops (console (Inr noon) (\<lambda>rq. Inr 200))
        (listing [(''Vests'', Inr [vest]), (''Hats'', Inr [shorts])])
        (listing [(''Cravats'', Inl Timeout)]) []))
      = [Start ''jeantrail1001@gmail.com'', Info_subcategories [''Vests'', ''Cravats'', ''Hats''],
         Processing ''Vests'', Success (Some (PStr ''Wool vest'')), Processing ''Cravats'']"
proof -
  let ?env = "console (Inr noon) (\<lambda>rq. Inr 200) :: (unit, unit line list) env"
  let ?a = "listing [(''Vests'', Inr [vest]), (''Hats'', Inr [shorts])] :: (unit, unit line list) scraper"
  let ?b = "listing [(''Cravats'', Inl Timeout)] :: (unit, unit line list) scraper"
  let ?pre = "each_subcategory three_stops ?env ?a ?b [''Vests''] (0, 0) (started three_stops ?env [])"
  let ?w = "[Start ''jeantrail1001@gmail.com'', Info_subcategories [''Vests'', ''Cravats'', ''Hats''],
         Processing ''Vests'', Success (Some (PStr ''Wool vest'')), Processing ''Cravats''] :: unit line list"
  have cs: "SUBCATEGORIES three_stops = [''Vests''] @ ''Cravats'' # [''Hats'']"
    by (simp add: three_stops_def)
  have pre: "?pre = (Inr (1, 0), snd ?pre)" by (simp add: run_defs)
  have raised: "?a ''Cravats'' (print ?env (Processing ''Cravats'') (world (snd ?pre))) = (Inl Timeout, ?w)
      \<or> (\<exists>ps w1. ?a ''Cravats'' (print ?env (Processing ''Cravats'') (world (snd ?pre))) = (Inr ps, w1)
                \<and> ?b ''Cravats'' w1 = (Inl Timeout, ?w))"
    by (simp add: run_defs)
  have "attempts (snd ?pre) = [\<lparr> item = vest, returned = True, sent_after = 1, failed_after = 0 \<rparr>]"
    by (simp add: run_defs)
  moreover have "fst ?pre = Inr (1, 0)" by (simp add: run_defs)
  moreover note scraper_exception_ends_run
    [of three_stops "[''Vests'']" "''Cravats''" "[''Hats'']" ?env ?a ?b "[]" "(1, 0)" "snd ?pre"
        Timeout ?w, OF cs pre raised]
  ultimately show ?thesis using cs by simp
qed

text \<open>
  Claim C7. With an empty \<^verbatim>\<open>SUBCATEGORIES\<close> the run ends with the summary \<open>(0, 0)\<close>;
  \<^verbatim>\<open>send_to_webhook\<close> is never called and no request is posted. All that happens to
  the world is the four \<^verbatim>\<open>print\<close> calls of lines 110, 111, 132 and 133.
\<close>

theorem empty_subcategories_no_calls:
  assumes "SUBCATEGORIES cfg = []"
  shows "main_with cfg env alibaba s1688 w =
     (Inr (0, 0),
      \<lparr> world = print env (Stats 0 0) (print env Complete
                  (print env (Info_subcategories []) (print env (Start (GMAIL_ACCOUNT cfg)) w))),
        wire = [], attempts = [], scraped = [] \<rparr>)"
  using assms by (simp add: main_with_def started_def fresh_def say_def)

theorem empty_subcategories_no_calls_witness:
  "SUBCATEGORIES no_stops = []
   \<and> main_with no_stops (console (Inl (Raised ''clock'')) (\<lambda>rq. Inl ConnectionError))
        (listing [(''Vests'', Inr [vest])]) (listing [(''Vests'', Inl Timeout)]) []
     = (Inr (0, 0),
        \<lparr> world = [Start ''jeantrail1001@gmail.com'', Info_subcategories [], Complete, Stats 0 0],
          wire = [], attempts = [], scraped = [] \<rparr>)"
proof -
  have h: "SUBCATEGORIES no_stops = []" by (simp add: no_stops_def)
  from empty_subcategories_no_calls
         [of no_stops "console (Inl (Raised ''clock'')) (\<lambda>rq. Inl ConnectionError)"
             "listing [(''Vests'', Inr [vest])]" "listing [(''Vests'', Inl Timeout)]" "[]", OF h] h
  show ?thesis by (simp add: console_def no_stops_def source_config_def)
qed

text \<open>
  Claim C8. Two runs in the same world, with the same library behaviour and the same
  scrapers, whose configurations differ in \<^verbatim>\<open>RATE_LIMIT_PER_MINUTE\<close> only, have the same
  result and the same final state: the same world, the same requests posted in the same
  order, the same attempts and the same summary.
\<close>

theorem rate_limit_not_read:
  "main_with (cfg\<lparr> RATE_LIMIT_PER_MINUTE := cap \<rparr>) env alibaba s1688 w
     = main_with cfg env alibaba s1688 w
   \<and> main (cfg\<lparr> RATE_LIMIT_PER_MINUTE := cap \<rparr>) env w = main cfg env w"
  by (simp add: main_def main_with_def started_def)

text \<open>
  Claim C9. In every run the records given to \<^verbatim>\<open>send_to_webhook\<close> are the records the
  scrapers returned, unchanged and in order. The \<^verbatim>\<open>product\<close> fields of the requests
  posted are, in order, among these records, each one the whole record as a dict; when
  reading the clock never raises, they are exactly these records.
\<close>

theorem records_pass_through:
  assumes "main_with cfg env alibaba s1688 w = (r, st)"
  shows "map item (attempts st) = concat (map snd (scraped st)) \<and>
         subseq (map product_field (wire st))
                (map (\<lambda>p. Some (PDict p)) (concat (map snd (scraped st)))) \<and>
         ((\<forall>v. \<not> isl (fst (utcnow_isoformat env v))) \<longrightarrow>
            map product_field (wire st) = map (\<lambda>p. Some (PDict p)) (concat (map snd (scraped st))))"
proof -
  have items: "map item (attempts st) = concat (map snd (scraped st))"
    and sub: "subseq (map product_field (wire st))
                (map (\<lambda>p. Some (PDict p)) (concat (map snd (scraped st))))"
    using main_with_sound(1) [OF assms] by (simp_all add: sound_def)
  have "map product_field (wire st) = map (\<lambda>p. Some (PDict p)) (concat (map snd (scraped st)))"
    if clock: "\<forall>v. \<not> isl (fst (utcnow_isoformat env v))"
  proof -
    have "length (wire (started cfg env w)) = length (attempts (started cfg env w))"
      by (simp add: started_def fresh_def)
    from each_subcategory_wire_length [OF clock this]
    have "length (wire st) = length (attempts st)"
      using main_with_histories(1,2) [of cfg env alibaba s1688 w] assms by simp
    also have "\<dots> = length (concat (map snd (scraped st)))"
      using items by (metis length_map)
    finally have "length (map product_field (wire st)) =
        length (map (\<lambda>p. Some (PDict p)) (concat (map snd (scraped st))))"
      by simp
    with sub show ?thesis by (rule subseq_same_length)
  qed
  with items sub show ?thesis by blast
qed

theorem records_pass_through_witness:
  "fst (main_with vests_only (console (Inr noon) (accepts_only cravat))
        (listing [(''Vests'', Inr [vest])]) (listing [(''Vests'', Inr [cravat])]) []) = Inr (1, 1)
   \<and> (\<forall>v. \<not> isl (fst (utcnow_isoformat
            (console (Inr noon) (accepts_only cravat) :: (unit, unit line list) env) v)))
   \<and> map product_field (wire (snd (main_with vests_only (console (Inr noon) (accepts_only cravat))
        (listing [(''Vests'', Inr [vest])]) (listing [(''Vests'', Inr [cravat])]) [])))
      = [Some (PDict [(''name'', PStr ''Wool vest''), (''price'', PObj ())]),
         Some (PDict [(''name'', PStr ''Silk cravat'')])]"
proof -
  let ?env = "console (Inr noon) (accepts_only cravat) :: (unit, unit line list) env"
  let ?run = "main_with vests_only ?env
        (listing [(''Vests'', Inr [vest])]) (listing [(''Vests'', Inr [cravat])]) []"
  have run: "?run = (fst ?run, snd ?run)" by simp
  have clock: "\<forall>v. \<not> isl (fst (utcnow_isoformat ?env v))" by (simp add: console_def)
  have "fst ?run = Inr (1, 1)" by (simp add: run_defs)
  moreover have "scraped (snd ?run) = [(''Vests'', [vest, cravat])]" by (simp add: run_defs)
  moreover note records_pass_through [OF run] clock
  ultimately show ?thesis by (simp add: vest_def cravat_def)
qed



end
